theory Spec2Isabelle
  imports Complex_Main
begin

section \<open>Python values and their runtime types\<close>

text \<open>
  The values a caller can put into an options dictionary: strings, integers, booleans,
  floats, \<^verbatim>\<open>None\<close>, dictionaries with string keys and lists. \<^verbatim>\<open>type(value)\<close> is the
  exact runtime class of a value; \<^verbatim>\<open>bool\<close> is a subclass of \<^verbatim>\<open>int\<close>, yet
  \<^verbatim>\<open>type(True)\<close> is \<^verbatim>\<open>bool\<close>, not \<^verbatim>\<open>int\<close>. The payload of a float plays no part in
  what follows.
\<close>

datatype pyval =
    PStr string
  | PInt int
  | PBool bool
  | PFloat real
  | PNone
  | PDict "(string \<times> pyval) list"
  | PList "pyval list"

text \<open>
  \<open>T_internal\<close> stands for the classes of interpreter objects that no value above has:
  \<^verbatim>\<open>type\<close>, \<^verbatim>\<open>method\<close>, \<^verbatim>\<open>method-wrapper\<close> and \<^verbatim>\<open>builtin_function_or_method\<close>.
\<close>

datatype pytype = T_str | T_int | T_bool | T_float | T_NoneType | T_dict | T_list | T_internal

fun type_of :: "pyval \<Rightarrow> pytype" where
  "type_of (PStr _) = T_str"
| "type_of (PInt _) = T_int"
| "type_of (PBool _) = T_bool"
| "type_of (PFloat _) = T_float"
| "type_of PNone = T_NoneType"
| "type_of (PDict _) = T_dict"
| "type_of (PList _) = T_list"

text \<open>\<^verbatim>\<open>isinstance(value, cls)\<close>: the subclass-aware test, which the resolver does not use.\<close>

fun isinstance :: "pyval \<Rightarrow> pytype \<Rightarrow> bool" where
  "isinstance (PBool _) T_int = True"
| "isinstance v t = (type_of v = t)"

text \<open>Dictionaries and lists are unhashable: using one as a dictionary key raises \<^verbatim>\<open>TypeError\<close>.\<close>

fun unhashable :: "pyval \<Rightarrow> bool" where
  "unhashable (PDict _) = True"
| "unhashable (PList _) = True"
| "unhashable _ = False"

text \<open>\<^verbatim>\<open>sub in s\<close> on strings: \<open>sub\<close> occurs in \<open>s\<close> as a contiguous run of characters.\<close>

fun startswith :: "string \<Rightarrow> string \<Rightarrow> bool" where
  "startswith s [] = True"
| "startswith [] (c # cs) = False"
| "startswith (d # ds) (c # cs) = (d = c \<and> startswith ds cs)"

fun str_contains :: "string \<Rightarrow> string \<Rightarrow> bool" where
  "str_contains [] sub = (sub = [])"
| "str_contains (c # cs) sub = (startswith (c # cs) sub \<or> str_contains cs sub)"


section \<open>The options object of \<^verbatim>\<open>hybrid/dispatch/hybrid_dispatch_options.py\<close>\<close>

subsection \<open>Exceptions\<close>

text \<open>
  An exception is its class together with the place that raised it and the value the
  message is formatted with:
  \<^item> \<open>NotAnAttribute key\<close>: \<^verbatim>\<open>NameError("'{}' is not an attribute in {}")\<close>, line 65;
  \<^item> \<open>WrongDataType key\<close>: \<^verbatim>\<open>ValueError("'{}' is the wrong data type.")\<close>, line 63;
  \<^item> \<open>NotADispatchClass v\<close>:
    \<^verbatim>\<open>ValueError("'{}' is not currently a battery dispatch class.")\<close>, line 81;
  \<^item> the others are raised by the interpreter: an attribute that cannot be assigned
    (\<open>NotWritable\<close>), an attribute that is missing when read (\<open>NoSuchAttribute\<close>), an
    unhashable value used as a dictionary key (\<open>Unhashable\<close>).
\<close>

datatype exn_class =
    NameError | ValueError | AttributeError | TypeError
  | IndexError | ZeroDivisionError | Exception

datatype exn_detail =
    NotAnAttribute string
  | WrongDataType string
  | NotADispatchClass pyval
  | NotWritable string
  | NoSuchAttribute string
  | Unhashable pyval

type_synonym error = "exn_class \<times> exn_detail"

subsection \<open>Attributes of the instance\<close>

text \<open>
  \<^verbatim>\<open>hasattr\<close>, \<^verbatim>\<open>getattr\<close> and \<^verbatim>\<open>setattr\<close> work on every attribute of \<^verbatim>\<open>self\<close>, by name.
  The attributes assigned in \<^verbatim>\<open>__init__\<close> live in the instance dictionary, modelled as a
  map from names to values. Lines 40 to 55 fill it with the defaults.
  (\<^verbatim>\<open>n_clusters\<close> is annotated \<^verbatim>\<open>bool\<close> in the source but holds the integer 30; annotations
  are not checked, so its runtime type is \<^verbatim>\<open>int\<close>, as the docstring says.)
\<close>

type_synonym instance_dict = "string \<rightharpoonup> pyval"

definition default_attributes :: "(string \<times> pyval) list" where
  "default_attributes =
    [(''solver'', PStr ''glpk''),
     (''cbc_timeout'', PInt 10),
     (''battery_dispatch'', PStr ''simple''),
     (''include_lifecycle_count'', PBool True),
     (''grid_charging'', PBool True),
     (''n_look_ahead_periods'', PInt 48),
     (''n_roll_periods'', PInt 24),
     (''log_name'', PStr ''''),
     (''is_test_start_year'', PBool False),
     (''is_test_end_year'', PBool False),
     (''use_clustering'', PBool False),
     (''n_clusters'', PInt 30),
     (''clustering_weights'', PDict []),
     (''clustering_divisions'', PDict [])]"

definition initial_instance :: instance_dict where
  "initial_instance = map_of default_attributes"

text \<open>
  Besides the instance dictionary, an instance has the attributes of its class and of
  \<^verbatim>\<open>object\<close>. The class body defines a docstring and \<^verbatim>\<open>__init__\<close>; the class statement adds
  \<^verbatim>\<open>__module__\<close>, \<^verbatim>\<open>__dict__\<close> and \<^verbatim>\<open>__weakref__\<close>; the rest comes from \<^verbatim>\<open>object\<close> (the
  names are those of CPython 3.7 to 3.10). The table gives the runtime type of the value
  that \<^verbatim>\<open>getattr\<close> returns for each name.
\<close>

definition class_attributes :: "(string \<times> pytype) list" where
  "class_attributes =
    [(''__doc__'', T_str),
     (''__module__'', T_str),
     (''__init__'', T_internal),
     (''__delattr__'', T_internal),
     (''__dir__'', T_internal),
     (''__eq__'', T_internal),
     (''__format__'', T_internal),
     (''__ge__'', T_internal),
     (''__getattribute__'', T_internal),
     (''__gt__'', T_internal),
     (''__hash__'', T_internal),
     (''__init_subclass__'', T_internal),
     (''__le__'', T_internal),
     (''__lt__'', T_internal),
     (''__ne__'', T_internal),
     (''__new__'', T_internal),
     (''__reduce__'', T_internal),
     (''__reduce_ex__'', T_internal),
     (''__repr__'', T_internal),
     (''__setattr__'', T_internal),
     (''__sizeof__'', T_internal),
     (''__str__'', T_internal),
     (''__subclasshook__'', T_internal)]"

text \<open>
  Three names are data descriptors of the class and take precedence over the instance
  dictionary: \<^verbatim>\<open>__dict__\<close> (the instance dictionary itself), \<^verbatim>\<open>__weakref__\<close> (\<^verbatim>\<open>None\<close>
  while no weak reference exists) and \<^verbatim>\<open>__class__\<close>.
\<close>

definition descriptor_type :: "string \<Rightarrow> pytype option" where
  "descriptor_type key =
    (if key = ''__dict__'' then Some T_dict
     else if key = ''__weakref__'' then Some T_NoneType
     else if key = ''__class__'' then Some T_internal
     else None)"

text \<open>
  \<^verbatim>\<open>type(getattr(self, key))\<close>, or \<open>None\<close> where \<^verbatim>\<open>getattr\<close> raises \<^verbatim>\<open>AttributeError\<close>:
  data descriptors first, then the instance dictionary, then the class.
\<close>

definition getattr_type :: "instance_dict \<Rightarrow> string \<Rightarrow> pytype option" where
  "getattr_type self key =
    (case descriptor_type key of
       Some t \<Rightarrow> Some t
     | None \<Rightarrow>
        (case self key of
           Some v \<Rightarrow> Some (type_of v)
         | None \<Rightarrow> map_of class_attributes key))"

definition hasattr :: "instance_dict \<Rightarrow> string \<Rightarrow> bool" where
  "hasattr self key = (getattr_type self key \<noteq> None)"

text \<open>
  \<^verbatim>\<open>setattr(self, key, value)\<close>: assigning \<^verbatim>\<open>__dict__\<close> a dictionary replaces the instance
  dictionary; \<^verbatim>\<open>__weakref__\<close> is read-only; \<^verbatim>\<open>__class__\<close> takes a class only. Any other
  name is stored in the instance dictionary, where it hides a class attribute of the
  same name.
\<close>

definition setattr :: "instance_dict \<Rightarrow> string \<Rightarrow> pyval \<Rightarrow> error + instance_dict" where
  "setattr self key v =
    (if key = ''__dict__'' then
       (case v of
          PDict d \<Rightarrow> Inr (map_of d)
        | _ \<Rightarrow> Inl (TypeError, NotWritable key))
     else if key = ''__weakref__'' then Inl (AttributeError, NotWritable key)
     else if key = ''__class__'' then Inl (TypeError, NotWritable key)
     else Inr (self(key \<mapsto> v)))"

subsection \<open>The constructor\<close>

text \<open>
  Lines 57 to 65: the loop over \<^verbatim>\<open>dispatch_options.items()\<close>, in the dictionary's order.
  The first entry that fails ends the construction.
\<close>

fun override_loop :: "instance_dict \<Rightarrow> (string \<times> pyval) list \<Rightarrow> error + instance_dict" where
  "override_loop self [] = Inr self"
| "override_loop self ((key, v) # items) =
    (if hasattr self key then
       (if getattr_type self key = Some (type_of v) then
          (case setattr self key v of
             Inl e \<Rightarrow> Inl e
           | Inr self' \<Rightarrow> override_loop self' items)
        else Inl (ValueError, WrongDataType key))
     else Inl (NameError, NotAnAttribute key))"

text \<open>Lines 67 to 72: the table from variant names to dispatch model classes.\<close>

datatype dispatch_class =
    OneCycleBatteryDispatchHeuristic
  | SimpleBatteryDispatchHeuristic
  | SimpleBatteryDispatch
  | NonConvexLinearVoltageBatteryDispatch
  | ConvexLinearVoltageBatteryDispatch

definition battery_dispatch_model_options :: "(string \<times> dispatch_class) list" where
  "battery_dispatch_model_options =
    [(''one_cycle_heuristic'', OneCycleBatteryDispatchHeuristic),
     (''heuristic'', SimpleBatteryDispatchHeuristic),
     (''simple'', SimpleBatteryDispatch),
     (''non_convex_LV'', NonConvexLinearVoltageBatteryDispatch),
     (''convex_LV'', ConvexLinearVoltageBatteryDispatch)]"

text \<open>
  The finished object: the instance dictionary with the option attributes, and the class
  bound to \<^verbatim>\<open>battery_dispatch_class\<close>. The attribute \<^verbatim>\<open>_battery_dispatch_model_options\<close>
  always holds the table above and is not repeated in the dictionary of the model.
\<close>

record HybridDispatchOptions =
  attributes :: instance_dict
  battery_dispatch_class :: dispatch_class

text \<open>
  Lines 73 to 81. Reading \<^verbatim>\<open>self.battery_dispatch\<close> raises \<^verbatim>\<open>AttributeError\<close> if the
  attribute is gone; \<^verbatim>\<open>in\<close> on the table hashes the value; only a string can equal one
  of the table's keys. For a heuristic variant line 78 stores 24 and line 79 copies the
  value just stored.
\<close>

definition select_dispatch :: "instance_dict \<Rightarrow> error + HybridDispatchOptions" where
  "select_dispatch self =
    (case self ''battery_dispatch'' of
       None \<Rightarrow> Inl (AttributeError, NoSuchAttribute ''battery_dispatch'')
     | Some bd \<Rightarrow>
        if unhashable bd then Inl (TypeError, Unhashable bd)
        else
          (case bd of
             PStr name \<Rightarrow>
               (case map_of battery_dispatch_model_options name of
                  Some cls \<Rightarrow>
                    if str_contains name ''heuristic'' then
                      (let self1 = self(''n_roll_periods'' \<mapsto> PInt 24);
                           self2 = self1(''n_look_ahead_periods'' := self1 ''n_roll_periods'')
                       in Inr \<lparr>attributes = self2, battery_dispatch_class = cls\<rparr>)
                    else Inr \<lparr>attributes = self, battery_dispatch_class = cls\<rparr>
                | None \<Rightarrow> Inl (ValueError, NotADispatchClass bd))
           | _ \<Rightarrow> Inl (ValueError, NotADispatchClass bd)))"

text \<open>
  \<^verbatim>\<open>HybridDispatchOptions(dispatch_options)\<close>; \<open>None\<close> is the default argument
  \<^verbatim>\<open>dispatch_options=None\<close>, which skips the loop.
\<close>

definition HybridDispatchOptions_init ::
  "(string \<times> pyval) list option \<Rightarrow> error + HybridDispatchOptions" where
  "HybridDispatchOptions_init dispatch_options =
    (case dispatch_options of
       None \<Rightarrow> select_dispatch initial_instance
     | Some items \<Rightarrow>
        (case override_loop initial_instance items of
           Inl e \<Rightarrow> Inl e
         | Inr self \<Rightarrow> select_dispatch self))"

subsection \<open>Notions used to state the properties of the constructor\<close>

text \<open>
  The declared type of an option is the runtime type of its default; a name that is not
  an option has none.
\<close>

definition declared_type :: "string \<Rightarrow> pytype option" where
  "declared_type key = map_option type_of (map_of default_attributes key)"

text \<open>An entry passes lines 59 and 60 when its key is an option and its value has the option's type.\<close>

fun valid_entry :: "string \<times> pyval \<Rightarrow> bool" where
  "valid_entry (key, v) = (declared_type key = Some (type_of v))"

text \<open>
  A name that every instance has without \<^verbatim>\<open>__init__\<close> assigning it: a data descriptor or
  an attribute of the class. \<open>own_keys\<close> says that no key of a mapping is such a name.
\<close>

definition inherited_name :: "string \<Rightarrow> bool" where
  "inherited_name key = (descriptor_type key \<noteq> None \<or> map_of class_attributes key \<noteq> None)"

definition own_keys :: "(string \<times> pyval) list \<Rightarrow> bool" where
  "own_keys items = list_all (\<lambda>(key, v). \<not> inherited_name key) items"

text \<open>
  The loop keeps every option at the type of its default, as long as the instance
  dictionary is not replaced.
\<close>

definition well_typed :: "instance_dict \<Rightarrow> bool" where
  "well_typed self = (\<forall>key. map_option type_of (self key) = declared_type key)"

text \<open>
  The specification's error classes, by the statement that raises: a configuration error
  is the \<^verbatim>\<open>NameError\<close> of line 65 or the \<^verbatim>\<open>ValueError\<close> of line 63; an unsupported
  formulation is the \<^verbatim>\<open>ValueError\<close> of line 81.
\<close>

fun configuration_error :: "error \<Rightarrow> bool" where
  "configuration_error (NameError, NotAnAttribute key) = True"
| "configuration_error (ValueError, WrongDataType key) = True"
| "configuration_error e = False"


text \<open>Reading the attributes of the finished object.\<close>

definition cbc_timeout :: "HybridDispatchOptions \<Rightarrow> pyval option" where
  "cbc_timeout cfg = attributes cfg ''cbc_timeout''"

definition battery_dispatch :: "HybridDispatchOptions \<Rightarrow> pyval option" where
  "battery_dispatch cfg = attributes cfg ''battery_dispatch''"

definition n_look_ahead_periods :: "HybridDispatchOptions \<Rightarrow> pyval option" where
  "n_look_ahead_periods cfg = attributes cfg ''n_look_ahead_periods''"

definition n_roll_periods :: "HybridDispatchOptions \<Rightarrow> pyval option" where
  "n_roll_periods cfg = attributes cfg ''n_roll_periods''"

text \<open>
  The value a mapping asks for: its own entry for the option, else the default.
  \<open>covers la r\<close> is the relation \<^verbatim>\<open>la >= r\<close> on two integer attributes.
\<close>

definition requested :: "(string \<times> pyval) list \<Rightarrow> string \<Rightarrow> pyval option" where
  "requested items key =
    (case map_of items key of Some v \<Rightarrow> Some v | None \<Rightarrow> map_of default_attributes key)"

fun covers :: "pyval option \<Rightarrow> pyval option \<Rightarrow> bool" where
  "covers (Some (PInt la)) (Some (PInt r)) = (r \<le> la)"
| "covers la r = False"

definition look_ahead_covers_roll :: "HybridDispatchOptions \<Rightarrow> bool" where
  "look_ahead_covers_roll cfg = covers (n_look_ahead_periods cfg) (n_roll_periods cfg)"

definition heuristic_variant :: "HybridDispatchOptions \<Rightarrow> bool" where
  "heuristic_variant cfg =
    (case battery_dispatch cfg of
       Some (PStr name) \<Rightarrow> str_contains name ''heuristic''
     | _ \<Rightarrow> False)"


section \<open>The CSP plant of \<^verbatim>\<open>hybrid/csp_source.py\<close>\<close>

text \<open>
  An exception raised in this module is its class and its message. The message is the
  text the source gives to \<^verbatim>\<open>raise\<close>; it is left empty for a bare \<^verbatim>\<open>raise ValueError\<close> and for
  exceptions raised inside the standard library or pandas, whose wording belongs there.
\<close>

type_synonym raised = "exn_class \<times> string"

subsection \<open>\<^verbatim>\<open>CspPlant.__init__\<close>: the required keys\<close>

definition required_keys :: "string list" where
  "required_keys = [''system_capacity_kw'', ''solar_multiple'', ''tes_hours'']"

text \<open>
  Lines 34 to 36. \<open>rest\<close> is the outcome of the remainder of the constructor (lines 38
  to 64), which calls into the simulation engine.
\<close>

definition CspPlant_init :: "(string \<rightharpoonup> 'v) \<Rightarrow> raised + 'plant \<Rightarrow> raised + 'plant" where
  "CspPlant_init csp_config rest =
    (if list_all (\<lambda>key. key \<notin> dom csp_config) required_keys then Inl (ValueError, [])
     else rest)"

subsection \<open>\<^verbatim>\<open>CspPlant.set_weather\<close>: the granularity check\<close>



text \<open>
  Line 144 is floating-point arithmetic. A double is modelled exactly, as an integer
  mantissa \<open>m\<close> and an exponent \<open>e\<close> standing for \<open>m * 2\<^sup>e\<close>. \<open>float_quotient p d\<close> is the
  double nearest to the exact quotient of two integers, ties to the even mantissa, with
  53 significant bits: what IEEE 754 division returns for operands that are themselves
  exact. Overflow and subnormal results are not modelled: the quotients taken below are
  far from both.
\<close>

type_synonym float64 = "int \<times> int"

fun bit_length :: "nat \<Rightarrow> nat" where
  "bit_length n = (if n = 0 then 0 else Suc (bit_length (n div 2)))"

declare bit_length.simps [simp del]

definition pow2 :: "int \<Rightarrow> int" where
  "pow2 k = 2 ^ nat k"

definition round_half_even :: "int \<Rightarrow> int \<Rightarrow> int" where
  "round_half_even n m =
    (let q = n div m; r = n mod m
     in if 2 * r < m then q else if m < 2 * r then q + 1 else if even q then q else q + 1)"

definition float_quotient :: "int \<Rightarrow> int \<Rightarrow> float64" where
  "float_quotient p d =
    (let a = \<bar>p\<bar>; b = \<bar>d\<bar> in
     if a = 0 then (0, 0)
     else
       (let k = int (bit_length (nat a)) - int (bit_length (nat b));
            e = (if (if 0 \<le> k then b * pow2 k \<le> a else b \<le> a * pow2 (- k)) then k else k - 1);
            t = e - 52;
            m = (if 0 \<le> t then round_half_even a (b * pow2 t)
                 else round_half_even (a * pow2 (- t)) b)
        in (sgn p * sgn d * m, t)))"

text \<open>
  \<^verbatim>\<open>x / y\<close> on doubles (the caller has excluded a zero divisor) and \<^verbatim>\<open>int(x)\<close>, which
  rounds towards zero.
\<close>

definition float_truediv :: "float64 \<Rightarrow> float64 \<Rightarrow> float64" where
  "float_truediv x y =
    (case (x, y) of
       ((m1, e1), (m2, e2)) \<Rightarrow>
         (let (m, e) = float_quotient m1 m2 in (m, e + (e1 - e2))))"

definition int_of_float :: "float64 \<Rightarrow> int" where
  "int_of_float x =
    (case x of (m, e) \<Rightarrow> if 0 \<le> e then m * pow2 e else sgn m * (\<bar>m\<bar> div pow2 (- e)))"

text \<open>
  Line 144, \<^verbatim>\<open>int(1 / (weather_timedelta.total_seconds() / 3600))\<close>. The frame comes from
  \<^verbatim>\<open>tmy3_to_df\<close>, which builds the index from the columns Year, Month, Day, Hour and
  Minute, so an instant is modelled as a whole number of seconds and a difference of
  two instants as well; \<^verbatim>\<open>total_seconds()\<close> of a whole number of seconds is an exact
  double. Dividing by a zero difference raises \<^verbatim>\<open>ZeroDivisionError\<close>.
\<close>

definition weather_time_steps_per_hour :: "int \<Rightarrow> raised + int" where
  "weather_time_steps_per_hour weather_timedelta =
    (let hours = float_truediv (weather_timedelta, 0) (3600, 0) in
     if fst hours = 0 then Inl (ZeroDivisionError, [])
     else Inr (int_of_float (float_truediv (1, 0) hours)))"




subsection \<open>\<^verbatim>\<open>CspPlant.seconds_since_newyear\<close>\<close>

text \<open>
  A \<^verbatim>\<open>datetime.datetime\<close>: the proleptic Gregorian date, the time of day and, for an aware
  datetime, the UTC offset of its \<^verbatim>\<open>tzinfo\<close> in seconds (\<open>None\<close> for a naive one).
\<close>

record datetime =
  year :: int
  month :: int
  day :: int
  hour :: int
  minute :: int
  second :: int
  microsecond :: int
  tzinfo :: "int option"

definition is_leap :: "int \<Rightarrow> bool" where
  "is_leap y = (y mod 4 = 0 \<and> (y mod 100 \<noteq> 0 \<or> y mod 400 = 0))"

definition days_in_month :: "int \<Rightarrow> int \<Rightarrow> int" where
  "days_in_month y m =
    (if m = 2 then (if is_leap y then 29 else 28)
     else if m = 4 \<or> m = 6 \<or> m = 9 \<or> m = 11 then 30
     else 31)"

text \<open>The datetimes the constructor \<^verbatim>\<open>datetime.datetime(...)\<close> accepts.\<close>

definition valid_datetime :: "datetime \<Rightarrow> bool" where
  "valid_datetime dt =
    (1 \<le> year dt \<and> year dt \<le> 9999 \<and> 1 \<le> month dt \<and> month dt \<le> 12 \<and>
     1 \<le> day dt \<and> day dt \<le> days_in_month (year dt) (month dt) \<and>
     0 \<le> hour dt \<and> hour dt < 24 \<and> 0 \<le> minute dt \<and> minute dt < 60 \<and>
     0 \<le> second dt \<and> second dt < 60 \<and> 0 \<le> microsecond dt \<and> microsecond dt < 1000000)"

text \<open>
  \<^verbatim>\<open>dt.replace(year=y)\<close> builds a new datetime and validates it: February 29 does not
  exist in a year that is not a leap year.
\<close>

definition replace_year :: "datetime \<Rightarrow> int \<Rightarrow> raised + datetime" where
  "replace_year dt y =
    (if y < 1 \<or> 9999 < y then Inl (ValueError, [])
     else if days_in_month y (month dt) < day dt then Inl (ValueError, [])
     else Inr (dt\<lparr>year := y\<rparr>))"

text \<open>\<^verbatim>\<open>toordinal\<close>: the day number of a date, 1 for January 1 of year 1.\<close>

definition days_before_year :: "int \<Rightarrow> int" where
  "days_before_year y = (y - 1) * 365 + (y - 1) div 4 - (y - 1) div 100 + (y - 1) div 400"

definition days_before_month :: "int \<Rightarrow> int \<Rightarrow> int" where
  "days_before_month y m = sum_list (map (days_in_month y) [1..m - 1])"

definition toordinal :: "datetime \<Rightarrow> int" where
  "toordinal dt = days_before_year (year dt) + days_before_month (year dt) (month dt) + day dt"

text \<open>
  A \<^verbatim>\<open>timedelta\<close> is its length in microseconds. Subtracting two datetimes: both naive, or
  both aware (the offsets are then taken off); one of each raises \<^verbatim>\<open>TypeError\<close>.
\<close>

type_synonym timedelta = int

definition microseconds_of_day :: "datetime \<Rightarrow> int" where
  "microseconds_of_day dt =
    (hour dt * 3600 + minute dt * 60 + second dt) * 1000000 + microsecond dt"

definition datetime_sub :: "datetime \<Rightarrow> datetime \<Rightarrow> raised + timedelta" where
  "datetime_sub a b =
    (let base = (toordinal a - toordinal b) * 86400000000 +
                (microseconds_of_day a - microseconds_of_day b)
     in case (tzinfo a, tzinfo b) of
          (None, None) \<Rightarrow> Inr base
        | (Some myoff, Some otoff) \<Rightarrow> Inr (base + (otoff - myoff) * 1000000)
        | _ \<Rightarrow> Inl (TypeError, []))"

text \<open>
  \<^verbatim>\<open>int(td.total_seconds())\<close>: the length in seconds, rounded towards zero.
  \<^verbatim>\<open>total_seconds\<close> is the float nearest to the exact quotient by \<open>10\<^sup>6\<close>; below \<open>10\<^sup>9\<close>
  seconds neighbouring floats are less than a microsecond apart, so the float of a
  length that is not a whole number of seconds stays strictly between the two whole
  numbers around it and \<^verbatim>\<open>int\<close> returns the exact integer part. A length within one year
  is far below that bound.
\<close>

definition int_total_seconds :: "timedelta \<Rightarrow> int" where
  "int_total_seconds td = (if 0 \<le> td then td div 1000000 else - ((- td) div 1000000))"

text \<open>Lines 255 to 259.\<close>

definition newyear :: datetime where
  "newyear = \<lparr>year = 2009, month = 1, day = 1, hour = 0, minute = 0, second = 0,
              microsecond = 0, tzinfo = None\<rparr>"

definition seconds_since_newyear :: "datetime \<Rightarrow> raised + int" where
  "seconds_since_newyear dt =
    (case replace_year dt 2009 of
       Inl e \<Rightarrow> Inl e
     | Inr dt2009 \<Rightarrow>
        (case datetime_sub dt2009 newyear of
           Inl e \<Rightarrow> Inl e
         | Inr time_diff \<Rightarrow> Inr (int_total_seconds time_diff)))"

text \<open>
  The value the specification names: the whole seconds from January 1, 00:00:00, to the
  given month, day and time of day in a year of 365 days.
\<close>

definition days_before_month_2009 :: "int list" where
  "days_before_month_2009 = [0, 31, 59, 90, 120, 151, 181, 212, 243, 273, 304, 334]"

definition elapsed_in_2009 :: "datetime \<Rightarrow> int" where
  "elapsed_in_2009 dt =
    (days_before_month_2009 ! nat (month dt - 1) + day dt - 1) * 86400 +
    hour dt * 3600 + minute dt * 60 + second dt"


section \<open>Properties of the options object\<close>

subsection \<open>The override loop\<close>

lemmas init_defs = HybridDispatchOptions_init_def hasattr_def getattr_type_def descriptor_type_def
  class_attributes_def initial_instance_def default_attributes_def setattr_def select_dispatch_def
  battery_dispatch_model_options_def

lemma declared_not_inherited: "declared_type k = Some t \<Longrightarrow> \<not> inherited_name k"
  by (auto simp: declared_type_def default_attributes_def inherited_name_def descriptor_type_def class_attributes_def split: if_splits)

lemma well_typed_initial: "well_typed initial_instance"
  by (simp add: well_typed_def initial_instance_def declared_type_def)

lemma getattr_type_own:
  "well_typed self \<Longrightarrow> \<not> inherited_name k \<Longrightarrow> getattr_type self k = declared_type k"
  by (auto simp: getattr_type_def inherited_name_def well_typed_def split: option.splits)
   (metis option.simps(8,9))+

lemma setattr_own: "\<not> inherited_name k \<Longrightarrow> setattr self k v = Inr (self(k \<mapsto> v))"
  by (auto simp: setattr_def inherited_name_def descriptor_type_def split: if_splits)

lemma well_typed_update:
  "well_typed self \<Longrightarrow> declared_type k = Some (type_of v) \<Longrightarrow> well_typed (self(k \<mapsto> v))"
  by (simp add: well_typed_def)

lemma override_step:
  assumes "well_typed self" "\<not> inherited_name k"
  shows "override_loop self ((k, v) # items) =
     (case declared_type k of
        None \<Rightarrow> Inl (NameError, NotAnAttribute k)
      | Some t \<Rightarrow> if t = type_of v then override_loop (self(k \<mapsto> v)) items
                  else Inl (ValueError, WrongDataType k))"
  using assms by (auto simp: hasattr_def getattr_type_own setattr_own split: option.splits)

lemma override_loop_valid:
  "well_typed self \<Longrightarrow> list_all valid_entry items \<Longrightarrow>
   override_loop self items = Inr (self ++ map_of (rev items)) \<and> well_typed (self ++ map_of (rev items))"
proof (induction items arbitrary: self)
  case Nil
  then show ?case by simp
next
  case (Cons kv items)
  obtain k v where kv: "kv = (k, v)" by (cases kv)
  from Cons.prems kv have d: "declared_type k = Some (type_of v)" and rest: "list_all valid_entry items"
    by simp_all
  from d have own: "\<not> inherited_name k" by (rule declared_not_inherited)
  have wt: "well_typed (self(k \<mapsto> v))" using Cons.prems(1) d by (rule well_typed_update)
  have eq: "(self(k \<mapsto> v)) ++ map_of (rev items) = self ++ map_of (rev (kv # items))"
    by (simp add: kv map_of_append fun_eq_iff map_add_def split: option.splits)
  have step: "override_loop self (kv # items) = override_loop (self(k \<mapsto> v)) items"
    unfolding kv using d by (simp add: override_step [OF Cons.prems(1) own] del: override_loop.simps)
  show ?case
    using Cons.IH [OF wt rest] unfolding step eq [symmetric] .
qed

lemma override_loop_first_invalid:
  "well_typed self \<Longrightarrow> list_all valid_entry pre \<Longrightarrow> \<not> valid_entry (k, v) \<Longrightarrow> \<not> inherited_name k \<Longrightarrow>
   override_loop self (pre @ (k, v) # post) =
     Inl (if declared_type k = None then (NameError, NotAnAttribute k) else (ValueError, WrongDataType k))"
proof (induction pre arbitrary: self)
  case Nil
  then show ?case
    by (auto simp: override_step [OF Nil.prems(1,4)] simp del: override_loop.simps split: option.splits)
next
  case (Cons kv pre)
  obtain k' v' where kv: "kv = (k', v')" by (cases kv)
  from Cons.prems kv have d: "declared_type k' = Some (type_of v')" and rest: "list_all valid_entry pre"
    by simp_all
  from d have own: "\<not> inherited_name k'" by (rule declared_not_inherited)
  have wt: "well_typed (self(k' \<mapsto> v'))" using Cons.prems(1) d by (rule well_typed_update)
  have step: "override_loop self ((kv # pre) @ (k, v) # post) =
      override_loop (self(k' \<mapsto> v')) (pre @ (k, v) # post)"
    unfolding kv using d by (simp add: override_step [OF Cons.prems(1) own] del: override_loop.simps)
  show ?case
    using Cons.IH [OF wt rest Cons.prems(3,4)] unfolding step .
qed

lemma first_invalid_entry:
  assumes "\<not> list_all valid_entry items"
  obtains pre k v post where "items = pre @ (k, v) # post" "list_all valid_entry pre" "\<not> valid_entry (k, v)"
proof -
  from assms have "\<exists>x\<in>set items. \<not> valid_entry x" by (simp add: list_all_iff)
  then obtain pre x post where sp: "items = pre @ x # post" "\<not> valid_entry x" "\<forall>y\<in>set pre. \<not> \<not> valid_entry y"
    using split_list_first_prop [of items "\<lambda>x. \<not> valid_entry x"] by blast
  obtain k v where x: "x = (k, v)" by (cases x)
  have "list_all valid_entry pre" using sp(3) by (simp add: list_all_iff)
  with sp(1,2) x that show thesis by blast
qed

lemma invalid_entry_rejected:
  assumes "well_typed self" "own_keys items" "\<not> list_all valid_entry items"
  shows "\<exists>e. override_loop self items = Inl e \<and> configuration_error e"
proof -
  from assms(3) obtain pre k v post where sp: "items = pre @ (k, v) # post"
    "list_all valid_entry pre" "\<not> valid_entry (k, v)" by (rule first_invalid_entry)
  have own: "\<not> inherited_name k" using assms(2) sp(1) by (simp add: own_keys_def)
  show ?thesis
    unfolding sp(1) override_loop_first_invalid [OF assms(1) sp(2,3) own] by simp
qed

lemma override_loop_accepts_only_valid:
  assumes "well_typed self" "own_keys items" "override_loop self items = Inr self'"
  shows "list_all valid_entry items"
  using invalid_entry_rejected [OF assms(1,2)] assms(3) by auto

lemma map_of_rev_distinct: "distinct (map fst xs) \<Longrightarrow> map_of (rev xs) = map_of xs"
proof (induction xs)
  case Nil
  then show ?case by simp
next
  case (Cons x xs)
  then have "map_of xs (fst x) = None" by (simp add: map_of_eq_None_iff)
  with Cons show ?case
    by (cases x) (auto simp: map_of_append fun_eq_iff map_add_def split: option.splits)
qed

lemma well_typed_battery_dispatch:
  assumes "well_typed self"
  obtains name where "self ''battery_dispatch'' = Some (PStr name)"
proof -
  have "map_option type_of (self ''battery_dispatch'') = Some T_str"
    using assms by (simp add: well_typed_def declared_type_def default_attributes_def)
  then obtain v where v: "self ''battery_dispatch'' = Some v" "type_of v = T_str" by auto
  then show thesis using that by (cases v) auto
qed

lemma select_dispatch_str:
  "self ''battery_dispatch'' = Some (PStr name) \<Longrightarrow>
   select_dispatch self =
     (case map_of battery_dispatch_model_options name of
        Some cls \<Rightarrow>
          Inr \<lparr>attributes =
                 (if str_contains name ''heuristic''
                  then self(''n_roll_periods'' \<mapsto> PInt 24, ''n_look_ahead_periods'' \<mapsto> PInt 24)
                  else self),
               battery_dispatch_class = cls\<rparr>
      | None \<Rightarrow> Inl (ValueError, NotADispatchClass (PStr name)))"
  by (simp add: select_dispatch_def Let_def split: option.splits)

text \<open>What a mapping of valid entries yields: the loop succeeds and the selection runs.\<close>

lemma init_valid:
  assumes "list_all valid_entry items" "distinct (map fst items)"
  obtains name where
    "(initial_instance ++ map_of items) ''battery_dispatch'' = Some (PStr name)"
    "HybridDispatchOptions_init (Some items) = select_dispatch (initial_instance ++ map_of items)"
proof -
  note lp = override_loop_valid [OF well_typed_initial assms(1)]
  have eq: "map_of (rev items) = map_of items" using assms(2) by (rule map_of_rev_distinct)
  from lp have wt: "well_typed (initial_instance ++ map_of items)" unfolding eq by simp
  from wt obtain name where bd: "(initial_instance ++ map_of items) ''battery_dispatch'' = Some (PStr name)"
    by (rule well_typed_battery_dispatch)
  have "HybridDispatchOptions_init (Some items) = select_dispatch (initial_instance ++ map_of items)"
    using lp unfolding eq by (simp add: HybridDispatchOptions_init_def)
  with bd show thesis by (rule that)
qed

lemma requested_eq: "requested items key = (initial_instance ++ map_of items) key"
  by (simp add: requested_def initial_instance_def map_add_def split: option.splits)

text \<open>
  What an accepted mapping yields when none of its keys is an inherited name: every
  entry was valid, and the object holds the overridden defaults, with the two period
  counts set to 24 for a heuristic variant.
\<close>

lemma init_accepted:
  assumes "own_keys items" "HybridDispatchOptions_init (Some items) = Inr cfg"
  obtains name cls where
    "list_all valid_entry items"
    "(initial_instance ++ map_of (rev items)) ''battery_dispatch'' = Some (PStr name)"
    "map_of battery_dispatch_model_options name = Some cls"
    "cfg = \<lparr>attributes =
             (if str_contains name ''heuristic''
              then (initial_instance ++ map_of (rev items))
                     (''n_roll_periods'' \<mapsto> PInt 24, ''n_look_ahead_periods'' \<mapsto> PInt 24)
              else initial_instance ++ map_of (rev items)),
           battery_dispatch_class = cls\<rparr>"
proof -
  from assms(2) obtain self where lp: "override_loop initial_instance items = Inr self"
    by (auto simp: HybridDispatchOptions_init_def split: sum.splits)
  have valid: "list_all valid_entry items"
    using well_typed_initial assms(1) lp by (rule override_loop_accepts_only_valid)
  note ok = override_loop_valid [OF well_typed_initial valid]
  from ok lp have self: "self = initial_instance ++ map_of (rev items)" by simp
  from ok obtain name where bd: "(initial_instance ++ map_of (rev items)) ''battery_dispatch'' = Some (PStr name)"
    using well_typed_battery_dispatch by blast
  have sel: "select_dispatch (initial_instance ++ map_of (rev items)) = Inr cfg"
    using assms(2) lp self by (simp add: HybridDispatchOptions_init_def)
  note str = select_dispatch_str [of "initial_instance ++ map_of (rev items)" name, OF bd]
  from sel obtain cls where cls: "map_of battery_dispatch_model_options name = Some cls"
    unfolding str by (auto split: option.splits)
  have "cfg = \<lparr>attributes =
             (if str_contains name ''heuristic''
              then (initial_instance ++ map_of (rev items))
                     (''n_roll_periods'' \<mapsto> PInt 24, ''n_look_ahead_periods'' \<mapsto> PInt 24)
              else initial_instance ++ map_of (rev items)),
           battery_dispatch_class = cls\<rparr>"
    using sel unfolding str cls by simp
  with valid bd cls show thesis by (rule that)
qed

subsection \<open>Defaults\<close>

text \<open>
  Claim C7. Without \<^verbatim>\<open>dispatch_options\<close> the constructor succeeds and \<^verbatim>\<open>cbc_timeout\<close> is 10.
  With a mapping that has no entry for \<^verbatim>\<open>cbc_timeout\<close> (and no key that is an inherited
  attribute name, such as \<^verbatim>\<open>__dict__\<close>, whose assignment replaces every attribute at
  once), every object the constructor returns has \<^verbatim>\<open>cbc_timeout\<close> equal to 10.
\<close>

theorem default_cbc_timeout:
  "map_sum id cbc_timeout (HybridDispatchOptions_init None) = Inr (Some (PInt 10)) \<and>
   (\<forall>items cfg. own_keys items \<longrightarrow> ''cbc_timeout'' \<notin> fst ` set items \<longrightarrow>
      HybridDispatchOptions_init (Some items) = Inr cfg \<longrightarrow> cbc_timeout cfg = Some (PInt 10))"
proof (intro conjI allI impI)
  show "map_sum id cbc_timeout (HybridDispatchOptions_init None) = Inr (Some (PInt 10))"
    by (simp add: init_defs cbc_timeout_def)
next
  fix items cfg
  assume own: "own_keys items" and absent: "''cbc_timeout'' \<notin> fst ` set items"
    and acc: "HybridDispatchOptions_init (Some items) = Inr cfg"
  from absent have none: "map_of (rev items) ''cbc_timeout'' = None"
    by (simp add: map_of_eq_None_iff)
  have dflt: "initial_instance ''cbc_timeout'' = Some (PInt 10)"
    by (simp add: initial_instance_def default_attributes_def)
  from own acc obtain name cls where
    "cfg = \<lparr>attributes =
             (if str_contains name ''heuristic''
              then (initial_instance ++ map_of (rev items))
                     (''n_roll_periods'' \<mapsto> PInt 24, ''n_look_ahead_periods'' \<mapsto> PInt 24)
              else initial_instance ++ map_of (rev items)),
           battery_dispatch_class = cls\<rparr>"
    by (rule init_accepted)
  then show "cbc_timeout cfg = Some (PInt 10)"
    using none dflt by (simp add: cbc_timeout_def map_add_def)
qed

theorem default_cbc_timeout_witness:
  "own_keys [(''solver'', PStr ''cbc''), (''n_roll_periods'', PInt 12)] \<and>
   ''cbc_timeout'' \<notin> fst ` set [(''solver'', PStr ''cbc''), (''n_roll_periods'', PInt 12)] \<and>
   map_sum id cbc_timeout
     (HybridDispatchOptions_init (Some [(''solver'', PStr ''cbc''), (''n_roll_periods'', PInt 12)])) =
     Inr (Some (PInt 10))"
proof -
  let ?items = "[(''solver'', PStr ''cbc''), (''n_roll_periods'', PInt 12)]"
  have own: "own_keys ?items"
    by (simp add: own_keys_def inherited_name_def descriptor_type_def class_attributes_def)
  have absent: "''cbc_timeout'' \<notin> fst ` set ?items" by simp
  obtain cfg where acc: "HybridDispatchOptions_init (Some ?items) = Inr cfg"
    by (simp add: init_defs)
  from default_cbc_timeout own absent acc have "cbc_timeout cfg = Some (PInt 10)" by blast
  with own absent acc show ?thesis by simp
qed

subsection \<open>Heuristic variants\<close>

text \<open>
  Claim C2. For every mapping of valid overrides whose \<^verbatim>\<open>battery_dispatch\<close> is
  \<^verbatim>\<open>'heuristic'\<close> or \<^verbatim>\<open>'one_cycle_heuristic'\<close>, the constructor succeeds and the object has
  \<^verbatim>\<open>n_roll_periods\<close> and \<^verbatim>\<open>n_look_ahead_periods\<close> equal to 24, whatever integers the mapping
  gives for the two fields.
\<close>

theorem heuristic_forces_one_day:
  assumes "list_all valid_entry items" and "distinct (map fst items)"
    and "map_of items ''battery_dispatch'' = Some (PStr name)"
    and "name = ''heuristic'' \<or> name = ''one_cycle_heuristic''"
  shows "\<exists>cfg. HybridDispatchOptions_init (Some items) = Inr cfg \<and>
           n_roll_periods cfg = Some (PInt 24) \<and> n_look_ahead_periods cfg = Some (PInt 24)"
proof -
  from assms(1,2) obtain name' where
    bd: "(initial_instance ++ map_of items) ''battery_dispatch'' = Some (PStr name')"
    and init: "HybridDispatchOptions_init (Some items) = select_dispatch (initial_instance ++ map_of items)"
    by (rule init_valid)
  from bd assms(3) have name': "name' = name" by (simp add: map_add_def)
  note str = select_dispatch_str [of "initial_instance ++ map_of items" name', OF bd]
  from assms(4) have "str_contains name ''heuristic'' \<and>
      map_of battery_dispatch_model_options name \<noteq> None"
    by (auto simp: battery_dispatch_model_options_def)
  then show ?thesis
    unfolding init str name'
    by (auto simp: n_roll_periods_def n_look_ahead_periods_def)
qed

text \<open>The overrides 48 and 48 of the specification's scenario are superseded.\<close>

theorem heuristic_forces_one_day_witness:
  "list_all valid_entry
     [(''battery_dispatch'', PStr ''one_cycle_heuristic''), (''n_roll_periods'', PInt 48),
      (''n_look_ahead_periods'', PInt 48)] \<and>
   map_sum id n_roll_periods
     (HybridDispatchOptions_init (Some
       [(''battery_dispatch'', PStr ''one_cycle_heuristic''), (''n_roll_periods'', PInt 48),
        (''n_look_ahead_periods'', PInt 48)])) = Inr (Some (PInt 24)) \<and>
   map_sum id n_look_ahead_periods
     (HybridDispatchOptions_init (Some
       [(''battery_dispatch'', PStr ''one_cycle_heuristic''), (''n_roll_periods'', PInt 48),
        (''n_look_ahead_periods'', PInt 48)])) = Inr (Some (PInt 24))"
proof -
  let ?items = "[(''battery_dispatch'', PStr ''one_cycle_heuristic''), (''n_roll_periods'', PInt 48),
      (''n_look_ahead_periods'', PInt 48)]"
  have valid: "list_all valid_entry ?items"
    by (simp add: declared_type_def default_attributes_def)
  have dist: "distinct (map fst ?items)" by simp
  have bd: "map_of ?items ''battery_dispatch'' = Some (PStr ''one_cycle_heuristic'')" by simp
  from heuristic_forces_one_day [OF valid dist bd] obtain cfg where
    "HybridDispatchOptions_init (Some ?items) = Inr cfg"
    "n_roll_periods cfg = Some (PInt 24)" "n_look_ahead_periods cfg = Some (PInt 24)"
    by blast
  with valid show ?thesis by simp
qed

subsection \<open>The relation between the two period counts\<close>

text \<open>
  Claim C1, as stated, fails: the constructor never compares the two counts. The mapping
  \<^verbatim>\<open>{'battery_dispatch': 'simple', 'n_look_ahead_periods': 24, 'n_roll_periods': 48}\<close> is
  accepted, and the object looks ahead 24 periods while rolling 48.
\<close>

theorem look_ahead_shorter_than_roll_accepted:
  "map_sum id n_look_ahead_periods
     (HybridDispatchOptions_init (Some
       [(''battery_dispatch'', PStr ''simple''), (''n_look_ahead_periods'', PInt 24),
        (''n_roll_periods'', PInt 48)])) = Inr (Some (PInt 24)) \<and>
   map_sum id n_roll_periods
     (HybridDispatchOptions_init (Some
       [(''battery_dispatch'', PStr ''simple''), (''n_look_ahead_periods'', PInt 24),
        (''n_roll_periods'', PInt 48)])) = Inr (Some (PInt 48)) \<and>
   map_sum id look_ahead_covers_roll
     (HybridDispatchOptions_init (Some
       [(''battery_dispatch'', PStr ''simple''), (''n_look_ahead_periods'', PInt 24),
        (''n_roll_periods'', PInt 48)])) = Inr False"
  by (simp add: init_defs n_look_ahead_periods_def n_roll_periods_def look_ahead_covers_roll_def)

text \<open>
  Claim C1, amended. For every accepted mapping of valid overrides: with a heuristic
  variant both counts are 24; otherwise each count is what the mapping asks for (its
  entry, else the default 48 or 24), unchecked. So \<^verbatim>\<open>n_look_ahead_periods >= n_roll_periods\<close>
  holds exactly when the variant is heuristic or the requested values satisfy it.
\<close>

theorem periods_after_construction:
  assumes "list_all valid_entry items" and "distinct (map fst items)"
    and "HybridDispatchOptions_init (Some items) = Inr cfg"
  shows "(if heuristic_variant cfg
          then n_roll_periods cfg = Some (PInt 24) \<and> n_look_ahead_periods cfg = Some (PInt 24)
          else n_roll_periods cfg = requested items ''n_roll_periods'' \<and>
               n_look_ahead_periods cfg = requested items ''n_look_ahead_periods'') \<and>
         (look_ahead_covers_roll cfg \<longleftrightarrow>
            heuristic_variant cfg \<or>
            covers (requested items ''n_look_ahead_periods'') (requested items ''n_roll_periods''))"
proof -
  from assms(1,2) obtain name where
    bd: "(initial_instance ++ map_of items) ''battery_dispatch'' = Some (PStr name)"
    and init: "HybridDispatchOptions_init (Some items) = select_dispatch (initial_instance ++ map_of items)"
    by (rule init_valid)
  note str = select_dispatch_str [of "initial_instance ++ map_of items" name, OF bd]
  from assms(3) obtain cls where
    cfg: "cfg = \<lparr>attributes =
             (if str_contains name ''heuristic''
              then (initial_instance ++ map_of items)
                     (''n_roll_periods'' \<mapsto> PInt 24, ''n_look_ahead_periods'' \<mapsto> PInt 24)
              else initial_instance ++ map_of items),
           battery_dispatch_class = cls\<rparr>"
    unfolding init str by (auto split: option.splits)
  have hv: "heuristic_variant cfg = str_contains name ''heuristic''"
    using bd by (simp add: cfg heuristic_variant_def battery_dispatch_def)
  have roll: "n_roll_periods cfg =
      (if str_contains name ''heuristic'' then Some (PInt 24) else requested items ''n_roll_periods'')"
    by (simp add: cfg n_roll_periods_def requested_eq)
  have la: "n_look_ahead_periods cfg =
      (if str_contains name ''heuristic'' then Some (PInt 24)
       else requested items ''n_look_ahead_periods'')"
    by (simp add: cfg n_look_ahead_periods_def requested_eq)
  show ?thesis
    unfolding hv roll la look_ahead_covers_roll_def by simp
qed

theorem periods_after_construction_witness:
  "list_all valid_entry [(''n_look_ahead_periods'', PInt 72), (''solver'', PStr ''cbc'')] \<and>
   distinct (map fst [(''n_look_ahead_periods'', PInt 72), (''solver'', PStr ''cbc'')]) \<and>
   map_sum id n_look_ahead_periods
     (HybridDispatchOptions_init (Some [(''n_look_ahead_periods'', PInt 72), (''solver'', PStr ''cbc'')])) =
     Inr (Some (PInt 72)) \<and>
   map_sum id n_roll_periods
     (HybridDispatchOptions_init (Some [(''n_look_ahead_periods'', PInt 72), (''solver'', PStr ''cbc'')])) =
     Inr (Some (PInt 24)) \<and>
   map_sum id look_ahead_covers_roll
     (HybridDispatchOptions_init (Some [(''n_look_ahead_periods'', PInt 72), (''solver'', PStr ''cbc'')])) =
     Inr True"
proof -
  let ?items = "[(''n_look_ahead_periods'', PInt 72), (''solver'', PStr ''cbc'')]"
  have valid: "list_all valid_entry ?items"
    by (simp add: declared_type_def default_attributes_def)
  have dist: "distinct (map fst ?items)" by simp
  obtain cfg where acc: "HybridDispatchOptions_init (Some ?items) = Inr cfg"
    by (simp add: init_defs)
  have nh: "\<not> heuristic_variant cfg"
    using acc by (auto simp: init_defs heuristic_variant_def battery_dispatch_def)
  have req: "requested ?items ''n_look_ahead_periods'' = Some (PInt 72)"
    "requested ?items ''n_roll_periods'' = Some (PInt 24)"
    by (simp_all add: requested_def default_attributes_def)
  from periods_after_construction [OF valid dist acc] nh req
  have "n_roll_periods cfg = Some (PInt 24) \<and> n_look_ahead_periods cfg = Some (PInt 72) \<and>
        look_ahead_covers_roll cfg" by simp
  with valid dist acc show ?thesis by simp
qed

subsection \<open>Rejected entries\<close>

text \<open>
  A mapping none of whose keys is an inherited attribute name, and that holds an option
  with a value whose type is not the option's declared type, is never accepted: the
  constructor fails with a configuration error (the type error of that entry, or the
  error of an entry the loop meets before it).
\<close>

lemma type_mismatch_rejected:
  assumes "own_keys items" and "(key, v) \<in> set items"
    and "declared_type key = Some t" and "type_of v \<noteq> t"
  shows "\<exists>e. HybridDispatchOptions_init (Some items) = Inl e \<and> configuration_error e"
proof -
  from assms(3,4) have "\<not> valid_entry (key, v)" by auto
  with assms(2) have "\<not> list_all valid_entry items" unfolding list_all_iff by blast
  with well_typed_initial assms(1) obtain e where
    "override_loop initial_instance items = Inl e" "configuration_error e"
    using invalid_entry_rejected by blast
  then show ?thesis by (simp add: HybridDispatchOptions_init_def)
qed

text \<open>
  A float for the integer option \<^verbatim>\<open>n_roll_periods\<close> is not coerced.
\<close>

lemma type_mismatch_rejected_example:
  "own_keys [(''solver'', PStr ''cbc''), (''n_roll_periods'', PFloat 24)] \<and>
   declared_type ''n_roll_periods'' = Some T_int \<and>
   type_of (PFloat 24) \<noteq> T_int \<and>
   HybridDispatchOptions_init (Some [(''solver'', PStr ''cbc''), (''n_roll_periods'', PFloat 24)]) =
     Inl (ValueError, WrongDataType ''n_roll_periods'')"
proof -
  let ?items = "[(''solver'', PStr ''cbc''), (''n_roll_periods'', PFloat 24)]"
  have own: "own_keys ?items"
    by (simp add: own_keys_def inherited_name_def descriptor_type_def class_attributes_def)
  have mem: "(''n_roll_periods'', PFloat 24) \<in> set ?items" by simp
  have d: "declared_type ''n_roll_periods'' = Some T_int"
    by (simp add: declared_type_def default_attributes_def)
  have ne: "type_of (PFloat 24) \<noteq> T_int" by simp
  from type_mismatch_rejected [OF own mem d ne] obtain e where
    "HybridDispatchOptions_init (Some ?items) = Inl e" by blast
  moreover have "HybridDispatchOptions_init (Some ?items) = Inl (ValueError, WrongDataType ''n_roll_periods'')"
    by (simp add: init_defs)
  ultimately show ?thesis using own d ne by simp
qed

text \<open>
  Claim C4. The type test of line 60 compares with the attribute as it is when the loop
  reaches the entry, and \<^verbatim>\<open>hasattr\<close> lets an entry for \<^verbatim>\<open>__dict__\<close> through (the defect of
  claim C3), which replaces every attribute. In
  \<^verbatim>\<open>{'__dict__': {'battery_dispatch': 'simple', 'cbc_timeout': True}, 'cbc_timeout': False}\<close>
  the integer option \<^verbatim>\<open>cbc_timeout\<close> is given a boolean, and the mapping is accepted with it.
  With \<^verbatim>\<open>{'__weakref__': None, 'cbc_timeout': True}\<close> the constructor fails, but with the
  \<^verbatim>\<open>AttributeError\<close> of the assignment, not with a configuration error.
\<close>

theorem type_mismatch_accepted_after_dict_replacement:
  "declared_type ''cbc_timeout'' = Some T_int \<and>
   map_sum id cbc_timeout
     (HybridDispatchOptions_init (Some
       [(''__dict__'', PDict [(''battery_dispatch'', PStr ''simple''), (''cbc_timeout'', PBool True)]),
        (''cbc_timeout'', PBool False)])) = Inr (Some (PBool False)) \<and>
   HybridDispatchOptions_init (Some [(''__weakref__'', PNone), (''cbc_timeout'', PBool True)]) =
     Inl (AttributeError, NotWritable ''__weakref__'')"
  by (simp add: init_defs declared_type_def cbc_timeout_def)

text \<open>
  Claim C8. The type test is equality of runtime types, not \<^verbatim>\<open>isinstance\<close>: once the loop
  reaches it, a boolean for an integer option is rejected with the type error although
  it is an instance of \<^verbatim>\<open>int\<close>, and an integer for a boolean option is rejected as well.
  \<open>pre\<close> are the entries before it, all valid; \<open>post\<close> the entries after it.
\<close>

theorem exact_type_equality:
  assumes "list_all valid_entry pre"
  shows "(declared_type key = Some T_int \<longrightarrow>
            isinstance (PBool b) T_int \<and>
            HybridDispatchOptions_init (Some (pre @ (key, PBool b) # post)) =
              Inl (ValueError, WrongDataType key)) \<and>
         (declared_type key = Some T_bool \<longrightarrow>
            HybridDispatchOptions_init (Some (pre @ (key, PInt i) # post)) =
              Inl (ValueError, WrongDataType key))"
proof (intro conjI impI)
  assume d: "declared_type key = Some T_int"
  show "isinstance (PBool b) T_int" by simp
  from d have own: "\<not> inherited_name key" by (rule declared_not_inherited)
  from d have inv: "\<not> valid_entry (key, PBool b)" by simp
  show "HybridDispatchOptions_init (Some (pre @ (key, PBool b) # post)) =
      Inl (ValueError, WrongDataType key)"
    using override_loop_first_invalid [OF well_typed_initial assms inv own, of post] d
    by (simp add: HybridDispatchOptions_init_def)
next
  assume d: "declared_type key = Some T_bool"
  from d have own: "\<not> inherited_name key" by (rule declared_not_inherited)
  from d have inv: "\<not> valid_entry (key, PInt i)" by simp
  show "HybridDispatchOptions_init (Some (pre @ (key, PInt i) # post)) =
      Inl (ValueError, WrongDataType key)"
    using override_loop_first_invalid [OF well_typed_initial assms inv own, of post] d
    by (simp add: HybridDispatchOptions_init_def)
qed

text \<open>
  \<^verbatim>\<open>cbc_timeout=True\<close> and \<^verbatim>\<open>grid_charging=1\<close>.
\<close>

theorem exact_type_equality_witness:
  "declared_type ''cbc_timeout'' = Some T_int \<and>
   isinstance (PBool True) T_int \<and>
   HybridDispatchOptions_init (Some [(''cbc_timeout'', PBool True)]) =
     Inl (ValueError, WrongDataType ''cbc_timeout'') \<and>
   declared_type ''grid_charging'' = Some T_bool \<and>
   HybridDispatchOptions_init (Some [(''grid_charging'', PInt 1)]) =
     Inl (ValueError, WrongDataType ''grid_charging'')"
proof -
  have a: "declared_type ''cbc_timeout'' = Some T_int"
    and b: "declared_type ''grid_charging'' = Some T_bool"
    by (simp_all add: declared_type_def default_attributes_def)
  have nil: "list_all valid_entry []" by simp
  from exact_type_equality [OF nil, of "''cbc_timeout''" True "[]" 1] a
  have 1: "isinstance (PBool True) T_int \<and>
     HybridDispatchOptions_init (Some [(''cbc_timeout'', PBool True)]) =
       Inl (ValueError, WrongDataType ''cbc_timeout'')" by simp
  from exact_type_equality [OF nil, of "''grid_charging''" True "[]" 1] b
  have 2: "HybridDispatchOptions_init (Some [(''grid_charging'', PInt 1)]) =
       Inl (ValueError, WrongDataType ''grid_charging'')" by simp
  from a b 1 2 show ?thesis by simp
qed

subsection \<open>Unknown keys\<close>

text \<open>
  Claim C3. \<^verbatim>\<open>hasattr(self, key)\<close> is true for every attribute of the object, not only for
  the options: \<^verbatim>\<open>__doc__\<close> is not an option, yet \<^verbatim>\<open>{'__doc__': 'anything'}\<close> is accepted
  (the class has a docstring, so the types agree). In the same way an entry for
  \<^verbatim>\<open>__dict__\<close> replaces the instance dictionary: the object built from
  \<^verbatim>\<open>{'__dict__': {'battery_dispatch': 'simple'}}\<close> has no \<^verbatim>\<open>cbc_timeout\<close> at all.
\<close>

theorem inherited_attribute_key_accepted:
  "declared_type ''__doc__'' = None \<and>
   map_sum id battery_dispatch_class
     (HybridDispatchOptions_init (Some [(''__doc__'', PStr ''anything'')])) = Inr SimpleBatteryDispatch \<and>
   map_sum id cbc_timeout
     (HybridDispatchOptions_init (Some [(''__dict__'', PDict [(''battery_dispatch'', PStr ''simple'')])])) =
     Inr None"
  by (simp add: init_defs declared_type_def cbc_timeout_def)

text \<open>
  What does hold: a key that is neither an option nor an inherited attribute name is
  never accepted.
\<close>

lemma unknown_key_rejected:
  assumes "own_keys items" and "(key, v) \<in> set items" and "declared_type key = None"
  shows "\<exists>e. HybridDispatchOptions_init (Some items) = Inl e \<and> configuration_error e"
proof -
  from assms(3) have "\<not> valid_entry (key, v)" by simp
  with assms(2) have "\<not> list_all valid_entry items" unfolding list_all_iff by blast
  with well_typed_initial assms(1) obtain e where
    "override_loop initial_instance items = Inl e" "configuration_error e"
    using invalid_entry_rejected by blast
  then show ?thesis by (simp add: HybridDispatchOptions_init_def)
qed

text \<open>The specification's scenario 3.\<close>

lemma not_a_real_option_rejected:
  "HybridDispatchOptions_init (Some [(''not_a_real_option'', PInt 1)]) =
     Inl (NameError, NotAnAttribute ''not_a_real_option'')"
  by (simp add: init_defs)

subsection \<open>Unknown dispatch variants\<close>

text \<open>
  The loop runs before the variant is looked up: when the mapping also holds an entry
  that fails the validation, the error is that of the entry.
\<close>

lemma configuration_error_precedes_unsupported_formulation:
  "HybridDispatchOptions_init
     (Some [(''battery_dispatch'', PStr ''optimal''), (''not_a_real_option'', PInt 1)]) =
     Inl (NameError, NotAnAttribute ''not_a_real_option'')"
  by (simp add: init_defs)




section \<open>Properties of the CSP plant\<close>

subsection \<open>Required keys\<close>

text \<open>
  Claim C9. The constructor raises \<^verbatim>\<open>ValueError\<close> for the required keys only when all three
  are absent from \<^verbatim>\<open>csp_config\<close>; with at least one of them present the check passes and
  the constructor goes on, whatever the other two.
\<close>

theorem required_keys_all_absent:
  "(''system_capacity_kw'' \<notin> dom csp_config \<and> ''solar_multiple'' \<notin> dom csp_config \<and>
    ''tes_hours'' \<notin> dom csp_config \<longrightarrow> CspPlant_init csp_config rest = Inl (ValueError, [])) \<and>
   (''system_capacity_kw'' \<in> dom csp_config \<or> ''solar_multiple'' \<in> dom csp_config \<or>
    ''tes_hours'' \<in> dom csp_config \<longrightarrow> CspPlant_init csp_config rest = rest)"
  by (auto simp: CspPlant_init_def required_keys_def)

text \<open>
  A configuration with \<^verbatim>\<open>tes_hours\<close> alone passes the check; the empty one does not.
\<close>

theorem required_keys_all_absent_witness:
  "''tes_hours'' \<in> dom [''tes_hours'' \<mapsto> (6::int)] \<and>
   ''system_capacity_kw'' \<notin> dom [''tes_hours'' \<mapsto> (6::int)] \<and>
   ''solar_multiple'' \<notin> dom [''tes_hours'' \<mapsto> (6::int)] \<and>
   CspPlant_init [''tes_hours'' \<mapsto> (6::int)] (Inr ()) = Inr () \<and>
   CspPlant_init (Map.empty :: string \<rightharpoonup> int) (Inr ()) = Inl (ValueError, [])"
  using required_keys_all_absent [of "[''tes_hours'' \<mapsto> (6::int)]" "Inr ()"]
    required_keys_all_absent [of "Map.empty :: string \<rightharpoonup> int" "Inr ()"]
  by simp

subsection \<open>Granularity of the weather file\<close>

lemmas float_defs = weather_time_steps_per_hour_def float_truediv_def float_quotient_def
  round_half_even_def pow2_def int_of_float_def bit_length.simps Let_def

text \<open>The length of a number in bits, and rounding an integer quotient to the nearest integer.\<close>

lemma bit_length_Suc: "n \<noteq> 0 \<Longrightarrow> bit_length n = Suc (bit_length (n div 2))"
  by (subst bit_length.simps) simp

lemma bit_length_bounds:
  "0 < n \<Longrightarrow> 2 ^ (bit_length n - 1) \<le> n \<and> n < 2 ^ bit_length n"
proof (induction n rule: bit_length.induct)
  case (1 n)
  from "1.prems" have ne: "n \<noteq> 0" by simp
  note bl = bit_length_Suc [OF ne]
  show ?case
  proof (cases "n div 2 = 0")
    case True
    with "1.prems" have n1: "n = 1" by (cases n) (auto simp: div_eq_0_iff)
    have "bit_length (n div 2) = 0" unfolding True by (subst bit_length.simps) simp
    with bl n1 show ?thesis by simp
  next
    case False
    then have pos: "0 < n div 2" by simp
    from "1.IH" [OF ne pos] have lo: "2 ^ (bit_length (n div 2) - 1) \<le> n div 2"
      and hi: "n div 2 < 2 ^ bit_length (n div 2)" by blast+
    obtain c where c: "bit_length (n div 2) = Suc c"
      using bit_length_Suc [OF False] by blast
    from lo have "2 ^ bit_length (n div 2) \<le> 2 * (n div 2)" unfolding c by simp
    also have "\<dots> \<le> n" by simp
    finally have L: "2 ^ (bit_length n - 1) \<le> n" unfolding bl by simp
    from hi have "n div 2 + 1 \<le> 2 ^ bit_length (n div 2)" by simp
    then have "2 * (n div 2) + 2 \<le> 2 ^ bit_length n" unfolding bl by simp
    moreover have "n < 2 * (n div 2) + 2" by arith
    ultimately have H: "n < 2 ^ bit_length n" by linarith
    from L H show ?thesis by blast
  qed
qed

lemma round_half_even_near:
  assumes "0 < m"
  shows "2 * \<bar>round_half_even n m * m - n\<bar> \<le> m"
proof -
  define q where "q = n div m"
  define r where "r = n mod m"
  have eq: "n = q * m + r" by (simp add: q_def r_def)
  have r: "0 \<le> r" "r < m" using assms by (simp_all add: r_def)
  have a: "q * m - n = - r" using eq by simp
  have b: "(q + 1) * m - n = m - r" using eq by (simp add: algebra_simps)
  have rhe: "round_half_even n m =
      (if 2 * r < m then q else if m < 2 * r then q + 1 else if even q then q else q + 1)"
    by (simp add: round_half_even_def Let_def q_def r_def)
  consider "2 * r < m" | "m < 2 * r" | "2 * r = m" "even q" | "2 * r = m" "odd q" by fastforce
  then show ?thesis
  proof cases
    case 1
    then show ?thesis unfolding rhe using a r by simp
  next
    case 2
    then have "round_half_even n m = q + 1" unfolding rhe by simp
    then show ?thesis using b r 2 by simp
  next
    case 3
    then have "round_half_even n m = q" unfolding rhe by simp
    then show ?thesis using a r 3 by simp
  next
    case 4
    then have "round_half_even n m = q + 1" unfolding rhe by simp
    then show ?thesis using b r 4 by simp
  qed
qed

lemma pow2_powr: "0 \<le> k \<Longrightarrow> real_of_int (pow2 k) = 2 powr (real_of_int k)"
proof -
  assume k: "0 \<le> k"
  have "(2::real) powr real (nat k) = 2 ^ nat k" by (rule powr_realpow) simp
  moreover have "real (nat k) = real_of_int k" using k by simp
  ultimately have "(2::real) powr real_of_int k = 2 ^ nat k" by (simp only:)
  then show ?thesis by (simp add: pow2_def)
qed

lemma bit_length_real:
  assumes "0 < p"
  shows "2 powr (real (bit_length (nat p)) - 1) \<le> real_of_int p \<and>
         real_of_int p < 2 powr (real (bit_length (nat p)))"
proof -
  from assms have pos: "0 < nat p" by simp
  from bit_length_bounds [OF pos] have lo: "2 ^ (bit_length (nat p) - 1) \<le> nat p"
    and hi: "nat p < 2 ^ bit_length (nat p)" by blast+
  obtain c where c: "bit_length (nat p) = Suc c"
    using pos bit_length_Suc [of "nat p"] by blast
  have rp: "real_of_int p = real (nat p)" using assms by simp
  have "real ((2::nat) ^ c) \<le> real (nat p)" using lo unfolding c by (simp only: of_nat_le_iff diff_Suc_1)
  then have L: "(2::real) ^ c \<le> real (nat p)" by simp
  have "real (nat p) < real ((2::nat) ^ Suc c)" using hi unfolding c by (simp only: of_nat_less_iff)
  then have H: "real (nat p) < (2::real) ^ Suc c" by simp
  have e1: "(2::real) powr (real (Suc c) - 1) = 2 ^ c"
    by (simp add: powr_realpow)
  have e2: "(2::real) powr (real (Suc c)) = 2 ^ Suc c"
    using powr_realpow [of 2 "Suc c"] by simp
  show ?thesis unfolding c rp e1 e2 using L H by blast
qed


lemma quotient_binade:
  assumes "0 < p" "0 < d"
  defines "k \<equiv> int (bit_length (nat p)) - int (bit_length (nat d))"
  shows "2 powr (real_of_int k - 1) < real_of_int p / real_of_int d \<and>
         real_of_int p / real_of_int d < 2 powr (real_of_int k + 1)"
proof -
  define P where "P = real (bit_length (nat p))"
  define D where "D = real (bit_length (nat d))"
  have k: "real_of_int k = P - D" by (simp add: k_def P_def D_def)
  from bit_length_real [OF assms(1)] have p: "2 powr (P - 1) \<le> real_of_int p" "real_of_int p < 2 powr P"
    by (simp_all add: P_def)
  from bit_length_real [OF assms(2)] have d: "2 powr (D - 1) \<le> real_of_int d" "real_of_int d < 2 powr D"
    by (simp_all add: D_def)
  have dpos: "0 < real_of_int d" using assms(2) by simp
  have ppos: "0 < real_of_int p" using assms(1) by simp
  have "2 powr (P - D - 1) * real_of_int d < 2 powr (P - D - 1) * 2 powr D"
    using d(2) by simp
  also have "\<dots> = 2 powr (P - 1)" by (simp add: powr_add [symmetric])
  also have "\<dots> \<le> real_of_int p" by (rule p(1))
  finally have lo: "2 powr (P - D - 1) < real_of_int p / real_of_int d"
    using dpos by (simp add: field_simps)
  have "real_of_int p < 2 powr P" by (rule p(2))
  also have "\<dots> = 2 powr (P - D + 1) * 2 powr (D - 1)" by (simp add: powr_add [symmetric])
  also have "\<dots> \<le> 2 powr (P - D + 1) * real_of_int d"
    using d(1) by simp
  finally have hi: "real_of_int p / real_of_int d < 2 powr (P - D + 1)"
    using dpos by (simp add: field_simps)
  from lo hi show ?thesis unfolding k by simp
qed


lemma binade_test:
  assumes "0 < p" "0 < d"
  shows "(if 0 \<le> k then d * pow2 k \<le> p else d \<le> p * pow2 (- k)) \<longleftrightarrow>
         2 powr (real_of_int k) \<le> real_of_int p / real_of_int d"
proof (cases "0 \<le> k")
  case True
  have dpos: "0 < real_of_int d" using assms(2) by simp
  have "d * pow2 k \<le> p \<longleftrightarrow> real_of_int (d * pow2 k) \<le> real_of_int p" by (simp only: of_int_le_iff)
  also have "\<dots> \<longleftrightarrow> real_of_int d * 2 powr (real_of_int k) \<le> real_of_int p"
    by (simp add: pow2_powr [OF True])
  also have "\<dots> \<longleftrightarrow> 2 powr (real_of_int k) \<le> real_of_int p / real_of_int d"
    using dpos by (simp add: field_simps)
  finally show ?thesis using True by simp
next
  case False
  then have nk: "0 \<le> - k" by simp
  have dpos: "0 < real_of_int d" using assms(2) by simp
  have inv: "2 powr (real_of_int (- k)) * 2 powr (real_of_int k) = (1::real)"
    by (simp add: powr_add [symmetric])
  have "d \<le> p * pow2 (- k) \<longleftrightarrow> real_of_int d \<le> real_of_int (p * pow2 (- k))" by (simp only: of_int_le_iff)
  also have "\<dots> \<longleftrightarrow> real_of_int d \<le> real_of_int p * 2 powr (real_of_int (- k))"
    by (simp add: pow2_powr [OF nk])
  also have "\<dots> \<longleftrightarrow> real_of_int d * 2 powr (real_of_int k) \<le>
      real_of_int p * 2 powr (real_of_int (- k)) * 2 powr (real_of_int k)"
    by simp
  also have "\<dots> \<longleftrightarrow> real_of_int d * 2 powr (real_of_int k) \<le> real_of_int p"
    using inv by (simp add: mult.assoc)
  also have "\<dots> \<longleftrightarrow> 2 powr (real_of_int k) \<le> real_of_int p / real_of_int d"
    using dpos by (simp add: field_simps)
  finally show ?thesis using False by simp
qed


lemma pow2_pos: "0 < pow2 k"
  by (simp add: pow2_def)

text \<open>
  \<open>float_quotient\<close> rounds to nearest: for positive \<open>p\<close> and \<open>d\<close> the mantissa has 53
  significant bits and the value \<open>m * 2\<^sup>t\<close> is within half a unit in the last place of
  \<open>p / d\<close>.
\<close>

lemma float_quotient_nearest:
  assumes "0 < p" "0 < d" "float_quotient p d = (m, t)"
  shows "2 ^ 52 \<le> m \<and> m \<le> 2 ^ 53 \<and>
         \<bar>real_of_int m * 2 powr (real_of_int t) - real_of_int p / real_of_int d\<bar>
           \<le> 2 powr (real_of_int t) / 2"
proof -
  define k where "k = int (bit_length (nat p)) - int (bit_length (nat d))"
  define e where "e = (if (if 0 \<le> k then d * pow2 k \<le> p else d \<le> p * pow2 (- k)) then k else k - 1)"
  define R where "R = real_of_int p / real_of_int d"
  define N where "N = (if 0 \<le> t then p else p * pow2 (- t))"
  define M where "M = (if 0 \<le> t then d * pow2 t else d)"
  have unf: "float_quotient p d =
      (if 0 \<le> e - 52 then round_half_even p (d * pow2 (e - 52))
       else round_half_even (p * pow2 (- (e - 52))) d, e - 52)"
    using assms(1,2) by (simp add: float_quotient_def Let_def k_def e_def)
  from assms(3) have t: "t = e - 52" unfolding unf by simp
  from assms(3) have m: "m = round_half_even N M"
    unfolding unf N_def M_def t by (auto split: if_splits)
  have Mpos: "0 < M" using assms(2) pow2_pos [of t] by (simp add: M_def)
  have binade: "2 powr (real_of_int e) \<le> R \<and> R < 2 powr (real_of_int e + 1)"
  proof (cases "2 powr (real_of_int k) \<le> R")
    case True
    then have "e = k" unfolding e_def R_def binade_test [OF assms(1,2)] by simp
    with True quotient_binade [OF assms(1,2)] show ?thesis by (simp add: k_def R_def)
  next
    case False
    then have "e = k - 1" unfolding e_def R_def binade_test [OF assms(1,2)] by simp
    with False quotient_binade [OF assms(1,2)] show ?thesis by (simp add: k_def R_def)
  qed
  define v where "v = R / 2 powr (real_of_int t)"
  have tpos: "0 < (2::real) powr (real_of_int t)" by simp
  have NM: "real_of_int N / real_of_int M = v"
  proof (cases "0 \<le> t")
    case True
    then show ?thesis
      using assms(2) by (simp add: N_def M_def v_def R_def pow2_powr)
  next
    case False
    then have nt: "0 \<le> - t" by simp
    have "2 powr (real_of_int (- t)) = 1 / 2 powr (real_of_int t)"
      by (simp add: powr_minus field_simps)
    with False show ?thesis
      using assms(2) by (simp add: N_def M_def v_def R_def pow2_powr [OF nt])
  qed
  have p52: "(2::real) powr 52 = 2 ^ 52" using powr_realpow [of 2 52] by simp
  have p53: "(2::real) powr 53 = 2 ^ 53" using powr_realpow [of 2 53] by simp
  have et: "real_of_int e = 52 + real_of_int t" "real_of_int e + 1 = 53 + real_of_int t"
    unfolding t by simp_all
  have e52: "2 powr (real_of_int e) = 2 ^ 52 * 2 powr (real_of_int t)"
    unfolding et(1) powr_add p52 ..
  have e53: "2 powr (real_of_int e + 1) = 2 ^ 53 * 2 powr (real_of_int t)"
    unfolding et(2) powr_add p53 ..
  have vlo: "2 ^ 52 \<le> v"
    using binade tpos unfolding e52 v_def by (simp add: field_simps)
  have vhi: "v < 2 ^ 53"
    using binade tpos unfolding e53 v_def by (simp add: field_simps)
  from round_half_even_near [OF Mpos, of N] have "2 * \<bar>m * M - N\<bar> \<le> M" unfolding m .
  then have "real_of_int (2 * \<bar>m * M - N\<bar>) \<le> real_of_int M" by (simp only: of_int_le_iff)
  then have "2 * \<bar>real_of_int m * real_of_int M - real_of_int N\<bar> \<le> real_of_int M" by simp
  moreover have "real_of_int m * real_of_int M - real_of_int N =
      (real_of_int m - v) * real_of_int M"
    using Mpos NM [symmetric] by (simp add: field_simps)
  ultimately have "2 * (\<bar>real_of_int m - v\<bar> * real_of_int M) \<le> real_of_int M"
    using Mpos by (simp add: abs_mult)
  then have near: "\<bar>real_of_int m - v\<bar> \<le> 1 / 2"
    using Mpos by (simp add: field_simps)
  from near have nb: "v - 1 / 2 \<le> real_of_int m" "real_of_int m \<le> v + 1 / 2"
    by linarith+
  have "real_of_int (2 ^ 52 - 1) < real_of_int m" using nb(1) vlo by simp
  then have "2 ^ 52 - 1 < m" by (simp only: of_int_less_iff)
  then have mlo: "2 ^ 52 \<le> m" by simp
  have "real_of_int m < real_of_int (2 ^ 53 + 1)" using nb(2) vhi by simp
  then have "m < 2 ^ 53 + 1" by (simp only: of_int_less_iff)
  then have mhi: "m \<le> 2 ^ 53" by simp
  have "real_of_int m * 2 powr (real_of_int t) - R = (real_of_int m - v) * 2 powr (real_of_int t)"
    using tpos by (simp add: v_def field_simps)
  then have "\<bar>real_of_int m * 2 powr (real_of_int t) - R\<bar> =
      \<bar>real_of_int m - v\<bar> * 2 powr (real_of_int t)"
    by (simp add: abs_mult)
  also have "\<dots> \<le> 1 / 2 * 2 powr (real_of_int t)"
    using near tpos by (simp add: mult_right_mono)
  finally have "\<bar>real_of_int m * 2 powr (real_of_int t) - R\<bar> \<le> 2 powr (real_of_int t) / 2"
    by simp
  with mlo mhi show ?thesis unfolding R_def by blast
qed

text \<open>
  The doubles nearest to one third and to one tenth, \<^verbatim>\<open>0x3FD5555555555555\<close> and
  \<^verbatim>\<open>0x3FB999999999999A\<close>.
\<close>

lemma float_quotient_examples:
  "float_quotient 1 3 = (6004799503160661, - 54)"
  "float_quotient 1 10 = (7205759403792794, - 56)"
  by (simp_all add: float_defs)





subsection \<open>Seconds since the new year\<close>

lemma days_before_month_2009:
  "1 \<le> m \<Longrightarrow> m \<le> 12 \<Longrightarrow> days_before_month 2009 m = days_before_month_2009 ! nat (m - 1)"
proof -
  assume "1 \<le> m" "m \<le> 12"
  then have "m = 1 \<or> m = 2 \<or> m = 3 \<or> m = 4 \<or> m = 5 \<or> m = 6 \<or> m = 7 \<or> m = 8 \<or> m = 9 \<or>
      m = 10 \<or> m = 11 \<or> m = 12" by arith
  then show ?thesis
    by (elim disjE) (simp_all add: days_before_month_def days_before_month_2009_def
        days_in_month_def is_leap_def upto_rec1)
qed

lemma day_fits_2009:
  assumes "valid_datetime dt" "\<not> (month dt = 2 \<and> day dt = 29)"
  shows "day dt \<le> days_in_month 2009 (month dt)"
  using assms by (auto simp: valid_datetime_def days_in_month_def is_leap_def split: if_splits)

lemma whole_seconds:
  "0 \<le> s \<Longrightarrow> 0 \<le> us \<Longrightarrow> us < 1000000 \<Longrightarrow> int_total_seconds (s * 1000000 + us) = s"
  by (simp add: int_total_seconds_def)

text \<open>
  Claim C10, as stated, fails on February 29: \<^verbatim>\<open>replace(year=2009)\<close> raises \<^verbatim>\<open>ValueError\<close>
  because 2009 has no such day, so for two leap-day datetimes that differ in the year
  only no value is returned at all.
\<close>

theorem leap_day_raises:
  "valid_datetime \<lparr>year = 2008, month = 2, day = 29, hour = 12, minute = 0, second = 0,
                    microsecond = 0, tzinfo = None\<rparr> \<and>
   valid_datetime \<lparr>year = 2012, month = 2, day = 29, hour = 12, minute = 0, second = 0,
                    microsecond = 0, tzinfo = None\<rparr> \<and>
   seconds_since_newyear \<lparr>year = 2008, month = 2, day = 29, hour = 12, minute = 0, second = 0,
                           microsecond = 0, tzinfo = None\<rparr> = Inl (ValueError, []) \<and>
   seconds_since_newyear \<lparr>year = 2012, month = 2, day = 29, hour = 12, minute = 0, second = 0,
                           microsecond = 0, tzinfo = None\<rparr> = Inl (ValueError, [])"
  by (simp add: valid_datetime_def seconds_since_newyear_def replace_year_def days_in_month_def
      is_leap_def)

text \<open>
  Claim C10, amended. For a naive datetime that is not February 29, the result does not
  depend on the year: it is the number of whole seconds from January 1, 00:00:00, to the
  same month, day and time of day in the year 2009, for the datetime and for the same
  datetime with any other year.
\<close>

theorem seconds_since_newyear_year_invariant:
  assumes "valid_datetime dt" and "tzinfo dt = None" and "\<not> (month dt = 2 \<and> day dt = 29)"
  shows "seconds_since_newyear dt = Inr (elapsed_in_2009 dt) \<and>
         seconds_since_newyear (dt\<lparr>year := y\<rparr>) = Inr (elapsed_in_2009 dt)"
proof -
  have fits: "day dt \<le> days_in_month 2009 (month dt)" using assms(1,3) by (rule day_fits_2009)
  from assms(1) have m: "1 \<le> month dt" "month dt \<le> 12" and d: "1 \<le> day dt"
    and t: "0 \<le> hour dt" "0 \<le> minute dt" "0 \<le> second dt"
      "0 \<le> microsecond dt" "microsecond dt < 1000000"
    by (simp_all add: valid_datetime_def)
  have ord: "toordinal (dt\<lparr>year := 2009\<rparr>) - toordinal newyear =
      days_before_month_2009 ! nat (month dt - 1) + day dt - 1"
    using days_before_month_2009 [OF m]
    by (simp add: toordinal_def newyear_def days_before_month_def)
  have nonneg: "0 \<le> days_before_month_2009 ! nat (month dt - 1)"
  proof -
    have "0 \<le> days_before_month 2009 (month dt)"
      unfolding days_before_month_def
      by (rule sum_list_nonneg) (auto simp: days_in_month_def)
    then show ?thesis using days_before_month_2009 [OF m] by simp
  qed
  let ?s = "elapsed_in_2009 dt"
  have s0: "0 \<le> ?s" using nonneg d t by (simp add: elapsed_in_2009_def)
  have diff: "datetime_sub (dt\<lparr>year := 2009\<rparr>) newyear = Inr (?s * 1000000 + microsecond dt)"
    using assms(2) ord
    by (simp add: datetime_sub_def Let_def microseconds_of_day_def elapsed_in_2009_def
        algebra_simps) (simp add: newyear_def)
  have one: "seconds_since_newyear dt = Inr ?s"
    using fits diff whole_seconds [OF s0 t(4,5)]
    by (simp add: seconds_since_newyear_def replace_year_def)
  have two: "seconds_since_newyear (dt\<lparr>year := y\<rparr>) = Inr ?s"
    using fits diff whole_seconds [OF s0 t(4,5)]
    by (simp add: seconds_since_newyear_def replace_year_def)
  from one two show ?thesis by simp
qed

text \<open>March 1 of the leap year 2020 and of 2021: day 60 of 2009 both times.\<close>

theorem seconds_since_newyear_year_invariant_witness:
  "valid_datetime \<lparr>year = 2020, month = 3, day = 1, hour = 1, minute = 2, second = 3,
                    microsecond = 999999, tzinfo = None\<rparr> \<and>
   seconds_since_newyear \<lparr>year = 2020, month = 3, day = 1, hour = 1, minute = 2, second = 3,
                           microsecond = 999999, tzinfo = None\<rparr> = Inr 5101323 \<and>
   seconds_since_newyear \<lparr>year = 2021, month = 3, day = 1, hour = 1, minute = 2, second = 3,
                           microsecond = 999999, tzinfo = None\<rparr> = Inr 5101323"
proof -
  let ?dt = "\<lparr>year = 2020, month = 3, day = 1, hour = 1, minute = 2, second = 3,
              microsecond = 999999, tzinfo = None\<rparr>"
  have v: "valid_datetime ?dt"
    by (simp add: valid_datetime_def days_in_month_def)
  have n: "tzinfo ?dt = None" by simp
  have f: "\<not> (month ?dt = 2 \<and> day ?dt = 29)" by simp
  have e: "elapsed_in_2009 ?dt = 5101323"
    by (simp add: elapsed_in_2009_def days_before_month_2009_def)
  from seconds_since_newyear_year_invariant [OF v n f, of 2021] v e show ?thesis by simp
qed


end
